theory Spec2Isabelle
  imports Main
begin

section \<open>The HTTP layer the session client talks to\<close>

text \<open>
  The session client of \<^verbatim>\<open>core.py\<close> owns one \<^verbatim>\<open>httpx.Client\<close>, created with default
  headers and \<^verbatim>\<open>follow_redirects = True\<close>. The model keeps what the source passes to
  that client (method, URL, form data, headers) and what it reads back (the status code and
  the cookies of the response the client returns), together with the one setting the
  source chooses: redirects are followed.

  The remote site and the network are a parameter: a function from the requests already
  sent on the wire and the current request to either a transport fault (its message) or a
  response. Every deterministic site, stateful or not, is such a function.

  Left out, since the source neither sets nor reads them: the client's cookie jar, the
  changes the client makes to the headers of a redirected request, and the closing of the
  client when the \<^verbatim>\<open>with\<close> block of a command is left, after which no call is made.

  Strings are byte strings, a character outside ASCII being the bytes of its UTF-8
  encoding, each of them above 127.
\<close>

datatype http_method = GET | POST

record request =
  req_method :: http_method
  req_url :: string
  req_headers :: "(string \<times> string) list"
  req_data :: "(string \<times> string) list"

text \<open>
  \<open>location\<close> is the target of the response's Location header, resolved by the client
  against the URL of the request (\<open>None\<close> when the header is absent); \<open>cookies\<close> are
  the cookies this response sets, by name.
\<close>

record response =
  status_code :: int
  location :: "string option"
  cookies :: "string \<rightharpoonup> string"

type_synonym server = "request list \<Rightarrow> request \<Rightarrow> string + response"

type_synonym exchange = "request \<times> (string + response)"

text \<open>
  The exceptions of the program: a fault of the HTTP layer (with its message), the
  client's redirect limit, the error of encoding a header that is not ASCII, the
  attribute error of calling \<^verbatim>\<open>rstrip\<close> on \<^verbatim>\<open>None\<close>, and \<^verbatim>\<open>typer.Exit\<close> with its code.
  All five are subclasses of \<^verbatim>\<open>Exception\<close> (\<^verbatim>\<open>Exit\<close> derives from \<^verbatim>\<open>RuntimeError\<close>).
\<close>

datatype exn =
    TransportError string
  | TooManyRedirects
  | UnicodeEncodeError
  | AttributeError
  | Exit int

text \<open>
  The client handle. \<open>exchanges\<close> is the record of its network activity: one group per
  call of \<^verbatim>\<open>client.get\<close> or \<^verbatim>\<open>client.post\<close>, holding the requests that call put on the
  wire, in order, each with what came back. The first request of a group is the call's
  own; the others are the redirects the client followed.
\<close>

record httpx_client =
  default_headers :: "(string \<times> string) list"
  follow_redirects :: bool
  exchanges :: "exchange list list"

definition COMMON_HEADERS :: "(string \<times> string) list" where
  "COMMON_HEADERS =
     [(''User-Agent'', ''Mozilla/5.0 (Windows NT 6.1; Win64; x64) AppleWebKit/537.36''),
      (''Accept'', ''text/html,application/xhtml+xml,application/xml;q=0.9,*/*;q=0.8''),
      (''Accept-Encoding'', ''gzip, deflate, br''),
      (''Accept-Language'', ''ru-RU,ru;q=0.9,en-US;q=0.8,en;q=0.7''),
      (''Connection'', ''keep-alive''),
      (''DNT'', ''1'')]"

definition max_redirects :: nat where
  "max_redirects = 20"

definition redirect_location :: "response \<Rightarrow> string option" where
  "redirect_location r =
     (if status_code r \<in> {301, 302, 303, 307, 308} then location r else None)"

definition redirect_method :: "http_method \<Rightarrow> int \<Rightarrow> http_method" where
  "redirect_method m code =
     (if code = 303 \<or> code = 302 then GET
      else if code = 301 \<and> m = POST then GET
      else m)"

definition build_redirect_request :: "request \<Rightarrow> response \<Rightarrow> string \<Rightarrow> request" where
  "build_redirect_request req r loc =
     (let m = redirect_method (req_method req) (status_code r)
      in \<lparr>req_method = m, req_url = loc, req_headers = req_headers req,
          req_data = (if m \<noteq> req_method req \<and> m = GET then [] else req_data req)\<rparr>)"

text \<open>
  The client's sending loop: send the request; return the response unless it is a
  redirect with a Location; otherwise, when redirects are followed, go on with the
  redirect request. The numeric argument counts the requests the call may still send: the
  loop raises \<open>TooManyRedirects\<close> once more than \<open>max_redirects\<close> redirects have been
  collected. \<open>past\<close> holds the requests of earlier calls, \<open>chain\<close> the exchanges of this
  call so far. A redirect changes a POST into a GET without form data after 301, 302
  and 303, and repeats the request after 307 and 308.
\<close>

fun send_handling_redirects ::
  "server \<Rightarrow> bool \<Rightarrow> nat \<Rightarrow> request list \<Rightarrow> exchange list \<Rightarrow> request
     \<Rightarrow> (exn + response) \<times> exchange list" where
  "send_handling_redirects srv follow 0 past chain req = (Inl TooManyRedirects, chain)"
| "send_handling_redirects srv follow (Suc n) past chain req =
     (let res = srv (past @ map fst chain) req;
          chain' = chain @ [(req, res)]
      in case res of
           Inl m \<Rightarrow> (Inl (TransportError m), chain')
         | Inr r \<Rightarrow>
             (case redirect_location r of
                None \<Rightarrow> (Inr r, chain')
              | Some loc \<Rightarrow>
                  if follow
                  then send_handling_redirects srv follow n past chain'
                         (build_redirect_request req r loc)
                  else (Inr r, chain')))"

definition merge_headers ::
  "(string \<times> string) list \<Rightarrow> (string \<times> string) list \<Rightarrow> (string \<times> string) list" where
  "merge_headers dflt hs = filter (\<lambda>kv. map_of hs (fst kv) = None) dflt @ hs"

text \<open>The request a call builds: the headers of the call are merged into the client's.\<close>

definition call_request ::
  "http_method \<Rightarrow> string \<Rightarrow> (string \<times> string) list \<Rightarrow> (string \<times> string) list
     \<Rightarrow> httpx_client \<Rightarrow> request" where
  "call_request m url dat hs c =
     \<lparr>req_method = m, req_url = url, req_headers = merge_headers (default_headers c) hs,
      req_data = dat\<rparr>"

text \<open>Sending the request of a call, and recording the call's group of exchanges.\<close>

definition client_send ::
  "server \<Rightarrow> http_method \<Rightarrow> string \<Rightarrow> (string \<times> string) list \<Rightarrow> (string \<times> string) list
     \<Rightarrow> httpx_client \<Rightarrow> (exn + response) \<times> httpx_client" where
  "client_send srv m url dat hs c =
     (let sent = send_handling_redirects srv (follow_redirects c) (Suc max_redirects)
                   (map fst (concat (exchanges c))) [] (call_request m url dat hs c)
      in (fst sent, c\<lparr>exchanges := exchanges c @ [snd sent]\<rparr>))"

text \<open>
  The headers given to a call are encoded as ASCII when its request is built, before
  anything is sent: a name or a value with a character outside ASCII raises
  \<open>UnicodeEncodeError\<close>. The client's own headers were encoded when the client was built.
\<close>

definition is_ascii :: "string \<Rightarrow> bool" where
  "is_ascii v = list_all (\<lambda>c. \<not> digit7 c) v"

definition headers_encodable :: "(string \<times> string) list \<Rightarrow> bool" where
  "headers_encodable hs = list_all (\<lambda>kv. is_ascii (fst kv) \<and> is_ascii (snd kv)) hs"

definition client_request ::
  "server \<Rightarrow> http_method \<Rightarrow> string \<Rightarrow> (string \<times> string) list \<Rightarrow> (string \<times> string) list
     \<Rightarrow> httpx_client \<Rightarrow> (exn + response) \<times> httpx_client" where
  "client_request srv m url dat hs c =
     (if headers_encodable hs then client_send srv m url dat hs c
      else (Inl UnicodeEncodeError, c))"

definition client_get :: "server \<Rightarrow> string \<Rightarrow> httpx_client \<Rightarrow> (exn + response) \<times> httpx_client" where
  "client_get srv url c = client_request srv GET url [] [] c"

definition client_post ::
  "server \<Rightarrow> string \<Rightarrow> (string \<times> string) list \<Rightarrow> (string \<times> string) list
     \<Rightarrow> httpx_client \<Rightarrow> (exn + response) \<times> httpx_client" where
  "client_post srv url dat hs c = client_request srv POST url dat hs c"


section \<open>The session client (\<^verbatim>\<open>core.py\<close>)\<close>

record HHUpdater =
  base_url :: string
  client :: httpx_client
  xsrf :: "string option"

text \<open>\<^verbatim>\<open>str.rstrip\<close> with a one-character argument.\<close>

definition rstrip :: "char \<Rightarrow> string \<Rightarrow> string" where
  "rstrip c s = rev (dropWhile (\<lambda>x. x = c) (rev s))"

definition init :: "string \<Rightarrow> HHUpdater" where
  "init url =
     \<lparr>base_url = rstrip (CHR ''/'') url,
      client = \<lparr>default_headers = COMMON_HEADERS, follow_redirects = True, exchanges = []\<rparr>,
      xsrf = None\<rparr>"

text \<open>Python's truth value of an optional string: \<^verbatim>\<open>None\<close> and \<^verbatim>\<open>''\<close> are false.\<close>

definition truthy :: "string option \<Rightarrow> bool" where
  "truthy x = (case x of None \<Rightarrow> False | Some t \<Rightarrow> t \<noteq> [])"

text \<open>\<^verbatim>\<open>x or ''\<close>\<close>

definition or_empty :: "string option \<Rightarrow> string" where
  "or_empty x = (case x of None \<Rightarrow> [] | Some t \<Rightarrow> if t = [] then [] else t)"

definition login_url :: "HHUpdater \<Rightarrow> string" where
  "login_url s = base_url s @ ''/account/login?backurl=%2F''"

definition get_xsrf :: "server \<Rightarrow> HHUpdater \<Rightarrow> (exn + string option) \<times> HHUpdater" where
  "get_xsrf srv s =
     (case client_get srv (login_url s) (client s) of
        (Inl e, c) \<Rightarrow> (Inl e, s\<lparr>client := c\<rparr>)
      | (Inr r, c) \<Rightarrow>
          (let t = cookies r ''_xsrf''
           in (Inr t, s\<lparr>client := c, xsrf := t\<rparr>)))"

text \<open>
  The label of the submit button, \<^verbatim>\<open>'action'\<close> in the login form, is a Cyrillic word
  of five letters; it is given here by its UTF-8 bytes.
\<close>

definition action_label :: string where
  "action_label =
     [CHR 0xD0, CHR 0x92, CHR 0xD0, CHR 0xBE, CHR 0xD0, CHR 0xB9, CHR 0xD1, CHR 0x82,
      CHR 0xD0, CHR 0xB8]"

definition login_data :: "HHUpdater \<Rightarrow> string \<Rightarrow> string \<Rightarrow> (string \<times> string) list" where
  "login_data s login password =
     [(''username'', login),
      (''password'', password),
      (''backUrl'', base_url s @ ''/''),
      (''_xsrf'', or_empty (xsrf s)),
      (''action'', action_label)]"

definition auth :: "server \<Rightarrow> string \<Rightarrow> string \<Rightarrow> HHUpdater \<Rightarrow> (exn + bool) \<times> HHUpdater" where
  "auth srv login password s0 =
     (case (if \<not> truthy (xsrf s0) then get_xsrf srv s0 else (Inr (xsrf s0), s0)) of
        (Inl e, s) \<Rightarrow> (Inl e, s)
      | (Inr _, s) \<Rightarrow>
          (case client_post srv (login_url s) (login_data s login password) [] (client s) of
             (Inl e, c) \<Rightarrow> (Inl e, s\<lparr>client := c\<rparr>)
           | (Inr r, c) \<Rightarrow> (Inr (status_code r = 200), s\<lparr>client := c\<rparr>)))"

definition touch_url :: "HHUpdater \<Rightarrow> string" where
  "touch_url s = base_url s @ ''/applicant/resumes/touch''"

definition touch_headers :: "HHUpdater \<Rightarrow> string \<Rightarrow> string \<Rightarrow> (string \<times> string) list" where
  "touch_headers s t cv_id =
     [(''X-Xsrftoken'', t),
      (''X-Requested-With'', ''XMLHttpRequest''),
      (''Referer'', base_url s @ ''/applicant/resumes/'' @ cv_id)]"

definition touch_data :: "string \<Rightarrow> (string \<times> string) list" where
  "touch_data cv_id = [(''resume'', cv_id), (''undirectable'', ''true'')]"

definition update_cv :: "server \<Rightarrow> string \<Rightarrow> HHUpdater \<Rightarrow> (exn + bool) \<times> HHUpdater" where
  "update_cv srv cv_id s =
     (case xsrf s of
        None \<Rightarrow> (Inr False, s)
      | Some t \<Rightarrow>
          if t = [] then (Inr False, s)
          else
            (case client_post srv (touch_url s) (touch_data cv_id) (touch_headers s t cv_id)
                    (client s) of
               (Inl e, c) \<Rightarrow> (Inl e, s\<lparr>client := c\<rparr>)
             | (Inr r, c) \<Rightarrow> (Inr (status_code r = 200), s\<lparr>client := c\<rparr>)))"


section \<open>The command sequencer (\<^verbatim>\<open>__main__.py\<close>)\<close>

text \<open>
  The module's global options, as the callback \<^verbatim>\<open>main\<close> leaves them: an empty base URL,
  login or password is stored as \<^verbatim>\<open>None\<close>.
\<close>

record globals =
  g_verbose :: bool
  g_base_url :: "string option"
  g_login :: "string option"
  g_password :: "string option"

text \<open>
  The lines the commands print, one constructor for each \<^verbatim>\<open>print_info\<close>,
  \<^verbatim>\<open>print_success\<close>, \<^verbatim>\<open>print_error\<close> and \<^verbatim>\<open>typer.echo\<close> of the source, carrying the
  values the line interpolates. The fixed wording and the colours are left out, and so is
  the elapsed time of the summary line.
\<close>

datatype message =
    Info_start nat
  | Info_base_url "string option"
  | Info_cv_ids "string list"
  | Info_get_xsrf
  | Info_auth
  | Error_auth
  | Success_auth
  | Info_cv string
  | Success_cv string
  | Error_cv string
  | Success_summary nat nat
  | Error_unexpected string
  | Traceback
  | Info_check string
  | Success_check string
  | Error_no_xsrf
  | Error_check string

text \<open>
  \<^verbatim>\<open>str(e)\<close>: the message of a transport fault; \<^verbatim>\<open>typer.Exit(code = 1)\<close> is built with a
  keyword argument only, so its text is empty. The text of the encoding error starts with
  the characters at fault and their position; only its fixed end is kept here.
\<close>

definition exn_str :: "exn \<Rightarrow> string" where
  "exn_str e =
     (case e of
        TransportError m \<Rightarrow> m
      | TooManyRedirects \<Rightarrow> ''Exceeded maximum allowed redirects.''
      | UnicodeEncodeError \<Rightarrow> ''ordinal not in range(128)''
      | AttributeError \<Rightarrow>
          [CHR 0x27] @ ''NoneType'' @ [CHR 0x27] @ '' object has no attribute ''
            @ [CHR 0x27] @ ''rstrip'' @ [CHR 0x27]
      | Exit c \<Rightarrow> [])"

text \<open>A credential that is \<^verbatim>\<open>None\<close> reaches the login form as the empty string.\<close>

definition form_str :: "string option \<Rightarrow> string" where
  "form_str x = (case x of None \<Rightarrow> [] | Some t \<Rightarrow> t)"

text \<open>The outcome of a command: how it ended, the session it used (if one was built), and
  what it printed.\<close>

record run =
  outcome :: "exn + unit"
  updater :: "HHUpdater option"
  printed :: "message list"

definition exit_status :: "run \<Rightarrow> int" where
  "exit_status r = (case outcome r of Inr _ \<Rightarrow> 0 | Inl (Exit c) \<Rightarrow> c | Inl _ \<Rightarrow> 1)"

text \<open>The loop over \<^verbatim>\<open>cv_ids\<close>, with the running \<^verbatim>\<open>success_count\<close>.\<close>

fun update_loop ::
  "server \<Rightarrow> bool \<Rightarrow> string list \<Rightarrow> nat \<Rightarrow> HHUpdater \<Rightarrow> message list
     \<Rightarrow> (exn + nat) \<times> HHUpdater \<times> message list" where
  "update_loop srv v [] success_count s out = (Inr success_count, s, out)"
| "update_loop srv v (cv_id # rest) success_count s out =
     (let out1 = out @ (if v then [Info_cv cv_id] else [])
      in case update_cv srv cv_id s of
           (Inl e, s') \<Rightarrow> (Inl e, s', out1)
         | (Inr ok, s') \<Rightarrow>
             if ok then update_loop srv v rest (success_count + 1) s' (out1 @ [Success_cv cv_id])
             else update_loop srv v rest success_count s' (out1 @ [Error_cv cv_id]))"

text \<open>The body of the \<^verbatim>\<open>with\<close> block of \<^verbatim>\<open>update\<close>.\<close>

definition update_body ::
  "server \<Rightarrow> globals \<Rightarrow> string list \<Rightarrow> HHUpdater \<Rightarrow> message list
     \<Rightarrow> (exn + unit) \<times> HHUpdater \<times> message list" where
  "update_body srv g cv_ids s out =
     (let out1 = out @ (if g_verbose g then [Info_get_xsrf, Info_auth] else [])
      in case auth srv (form_str (g_login g)) (form_str (g_password g)) s of
           (Inl e, s1) \<Rightarrow> (Inl e, s1, out1)
         | (Inr auth_success, s1) \<Rightarrow>
             if \<not> auth_success then (Inl (Exit 1), s1, out1 @ [Error_auth])
             else
               (case update_loop srv (g_verbose g) cv_ids 0 s1 (out1 @ [Success_auth]) of
                  (Inl e, s2, out2) \<Rightarrow> (Inl e, s2, out2)
                | (Inr success_count, s2, out2) \<Rightarrow>
                    (if success_count < length cv_ids then Inl (Exit 1) else Inr (),
                     s2,
                     out2 @ [Success_summary success_count (length cv_ids)])))"

text \<open>
  The command \<^verbatim>\<open>update\<close>: the \<^verbatim>\<open>try\<close> block around the session, and the handler that
  turns every exception, \<^verbatim>\<open>typer.Exit\<close> included, into \<^verbatim>\<open>typer.Exit(code = 1)\<close>.
\<close>

definition update :: "server \<Rightarrow> globals \<Rightarrow> string list \<Rightarrow> run" where
  "update srv g cv_ids =
     (let out0 = (if g_verbose g
                  then [Info_start (length cv_ids), Info_base_url (g_base_url g),
                        Info_cv_ids cv_ids]
                  else []);
          tried = (case g_base_url g of
                     None \<Rightarrow> (Inl AttributeError, None, out0)
                   | Some url \<Rightarrow>
                       (case update_body srv g cv_ids (init url) out0 of
                          (res, s, out) \<Rightarrow> (res, Some s, out)))
      in case tried of
           (Inl e, s, out) \<Rightarrow>
             \<lparr>outcome = Inl (Exit 1), updater = s,
              printed = out @ [Error_unexpected (exn_str e)]
                         @ (if g_verbose g then [Traceback] else [])\<rparr>
         | (Inr u, s, out) \<Rightarrow> \<lparr>outcome = Inr u, updater = s, printed = out\<rparr>)"

text \<open>
  The command \<^verbatim>\<open>check\<close>; the token shown is \<^verbatim>\<open>xsrf[:10]\<close>. A token is a cookie
  value, taken to be ASCII, so that its first ten characters are its first ten bytes.
\<close>

definition check :: "server \<Rightarrow> string \<Rightarrow> run" where
  "check srv url =
     (let out0 = [Info_check url];
          tried = (case get_xsrf srv (init url) of
                     (Inl e, s) \<Rightarrow> (Inl e, s, out0)
                   | (Inr x, s) \<Rightarrow>
                       (case x of
                          None \<Rightarrow> (Inl (Exit 1), s, out0 @ [Error_no_xsrf])
                        | Some t \<Rightarrow>
                            if t = [] then (Inl (Exit 1), s, out0 @ [Error_no_xsrf])
                            else (Inr (), s, out0 @ [Success_check (take 10 t)])))
      in case tried of
           (Inl e, s, out) \<Rightarrow>
             \<lparr>outcome = Inl (Exit 1), updater = Some s,
              printed = out @ [Error_check (exn_str e)]\<rparr>
         | (Inr u, s, out) \<Rightarrow> \<lparr>outcome = Inr u, updater = Some s, printed = out\<rparr>)"


text \<open>The call of \<^verbatim>\<open>auth\<close> that \<^verbatim>\<open>update\<close> makes, on the session it has just built.\<close>

definition run_auth :: "server \<Rightarrow> globals \<Rightarrow> string \<Rightarrow> (exn + bool) \<times> HHUpdater" where
  "run_auth srv g url = auth srv (form_str (g_login g)) (form_str (g_password g)) (init url)"


text \<open>What \<^verbatim>\<open>update\<close> prints, when verbose, before it calls \<^verbatim>\<open>auth\<close>.\<close>

definition preamble :: "globals \<Rightarrow> string list \<Rightarrow> message list" where
  "preamble g cv_ids =
     (if g_verbose g
      then [Info_start (length cv_ids), Info_base_url (g_base_url g), Info_cv_ids cv_ids,
            Info_get_xsrf, Info_auth]
      else [])"


section \<open>Reading the record of network activity\<close>

text \<open>
  The requests the session handed to its client, one per call, in order: the first
  request of every group of exchanges.
\<close>

definition calls :: "HHUpdater \<Rightarrow> request list" where
  "calls s = map fst (concat (map (take 1) (exchanges (client s))))"

text \<open>
  The status code of the last exchange of a group (\<open>None\<close> when it ended in a transport
  fault); when the call returned a response, it is the status code of that response.
\<close>

definition final_status :: "exchange list \<Rightarrow> int option" where
  "final_status g =
     (case rev g of
        [] \<Rightarrow> None
      | x # _ \<Rightarrow> (case snd x of Inl _ \<Rightarrow> None | Inr r \<Rightarrow> Some (status_code r)))"

text \<open>The requests the three operations hand to the client.\<close>

definition login_get_request :: "HHUpdater \<Rightarrow> request" where
  "login_get_request s = call_request GET (login_url s) [] [] (client s)"

definition login_post_request :: "HHUpdater \<Rightarrow> string \<Rightarrow> string \<Rightarrow> request" where
  "login_post_request s login password =
     call_request POST (login_url s) (login_data s login password) [] (client s)"


text \<open>The per-resume outcome lines of a printout, in order: the identifier and whether the
  line reports success.\<close>

fun item_outcomes :: "message list \<Rightarrow> (string \<times> bool) list" where
  "item_outcomes [] = []"
| "item_outcomes (Success_cv cv_id # ms) = (cv_id, True) # item_outcomes ms"
| "item_outcomes (Error_cv cv_id # ms) = (cv_id, False) # item_outcomes ms"
| "item_outcomes (m # ms) = item_outcomes ms"




text \<open>A group of exchanges at a glance: method, URL and status code of each exchange
  (\<open>None\<close> for a transport fault).\<close>

definition wire_summary :: "exchange list \<Rightarrow> (http_method \<times> string \<times> int option) list" where
  "wire_summary g =
     map (\<lambda>x. (req_method (fst x), req_url (fst x),
               (case snd x of Inl _ \<Rightarrow> None | Inr r \<Rightarrow> Some (status_code r)))) g"


text \<open>
  The second half of \<^verbatim>\<open>auth\<close>, from the form data to the result, as a function of the
  session it starts from; \<open>auth_unfold\<close> below relates it to \<open>auth\<close>.
\<close>

definition login_post ::
  "server \<Rightarrow> string \<Rightarrow> string \<Rightarrow> HHUpdater \<Rightarrow> (exn + bool) \<times> HHUpdater" where
  "login_post srv login password s =
     (case client_post srv (login_url s) (login_data s login password) [] (client s) of
        (Inl e, c) \<Rightarrow> (Inl e, s\<lparr>client := c\<rparr>)
      | (Inr r, c) \<Rightarrow> (Inr (status_code r = 200), s\<lparr>client := c\<rparr>))"


section \<open>Scripted sites\<close>

text \<open>
  A site without redirects: every GET is answered 200 and sets the cookie \<^verbatim>\<open>_xsrf\<close> to
  \<open>tok\<close> (no cookie when \<open>tok\<close> is \<open>None\<close>); a POST that carries a \<^verbatim>\<open>resume\<close> field is
  answered with the status scripted for that resume, any other POST with \<open>login_status\<close>.
\<close>

definition scripted_site :: "string option \<Rightarrow> int \<Rightarrow> (string \<Rightarrow> int) \<Rightarrow> server" where
  "scripted_site tok login_status touch_status past req =
     Inr (if req_method req = GET
          then \<lparr>status_code = 200, location = None,
                cookies = (\<lambda>k. if k = ''_xsrf'' then tok else None)\<rparr>
          else
            (case map_of (req_data req) ''resume'' of
               None \<Rightarrow> \<lparr>status_code = login_status, location = None, cookies = Map.empty\<rparr>
             | Some cv \<Rightarrow> \<lparr>status_code = touch_status cv, location = None, cookies = Map.empty\<rparr>))"

text \<open>
  A site whose login endpoint answers the POST with a redirect to the front page, as a
  site does after a successful login; every GET is answered 200.
\<close>

definition redirecting_site :: server where
  "redirecting_site past req =
     Inr (if req_method req = POST
          then \<lparr>status_code = 302, location = Some ''https://hh.ru/'', cookies = Map.empty\<rparr>
          else \<lparr>status_code = 200, location = None,
                cookies = (\<lambda>k. if k = ''_xsrf'' then Some ''0123456789abcdef'' else None)\<rparr>)"

text \<open>A site that answers every request 200 and sets a new \<^verbatim>\<open>_xsrf\<close> cookie each time.\<close>

definition rotating_site :: server where
  "rotating_site past req =
     Inr \<lparr>status_code = 200, location = None,
          cookies = (\<lambda>k. if k = ''_xsrf'' then Some (replicate (Suc (length past)) (CHR ''x''))
                         else None)\<rparr>"


text \<open>Two sites without redirects whose login page sets a short \<^verbatim>\<open>_xsrf\<close> cookie, of
  three characters and of none.\<close>

definition short_token_site :: server where
  "short_token_site = scripted_site (Some ''abc'') 200 (\<lambda>cv. 200)"

definition empty_token_site :: server where
  "empty_token_site = scripted_site (Some []) 200 (\<lambda>cv. 200)"







text \<open>A site that is down: every request ends in a transport fault.\<close>

definition unreachable_site :: server where
  "unreachable_site past req = Inl ''connection refused''"


section \<open>Properties of the HTTP layer\<close>

lemma shr_extends:
  "\<exists>rest. snd (send_handling_redirects srv f n past chain req) = chain @ rest"
proof (induction srv f n past chain req rule: send_handling_redirects.induct)
  case (1 srv follow past chain req)
  then show ?case by simp
next
  case (2 srv follow n past chain req)
  show ?case
  proof (cases "srv (past @ map fst chain) req")
    case (Inl m)
    then show ?thesis by (simp add: Let_def)
  next
    case (Inr r)
    show ?thesis
    proof (cases "redirect_location r")
      case None
      with Inr show ?thesis by (simp add: Let_def)
    next
      case (Some loc)
      show ?thesis
      proof (cases follow)
        case False
        with Inr Some show ?thesis by (simp add: Let_def)
      next
        case True
        from "2.IH" [OF refl refl Inr Some True] Inr
        obtain rest where
          "snd (send_handling_redirects srv follow n past (chain @ [(req, Inr r)])
                 (build_redirect_request req r loc)) = (chain @ [(req, Inr r)]) @ rest"
          by auto
        with Inr Some True show ?thesis by (simp add: Let_def)
      qed
    qed
  qed
qed

lemma shr_Inr:
  "send_handling_redirects srv f n past chain req = (Inr r, ch) \<Longrightarrow>
     \<exists>q. ch \<noteq> [] \<and> last ch = (q, Inr r)"
  by (induction srv f n past chain req rule: send_handling_redirects.induct)
     (auto simp: Let_def split: sum.splits option.splits if_splits)

lemma shr_first:
  "\<exists>rest. snd (send_handling_redirects srv f (Suc n) past [] req) = (req, srv past req) # rest"
  using shr_extends [of srv f n past "[(req, srv past req)]"]
  by (auto simp: Let_def split: sum.splits option.splits)

text \<open>
  What one call of the client does to its record: it appends one group, which starts with
  the call's own request and the site's answer to it, and which ends with the response the
  call returns, when it returns one.
\<close>

lemma client_send_group:
  "\<exists>g rest.
     snd (client_send srv m url dat hs c) = c\<lparr>exchanges := exchanges c @ [g]\<rparr>
     \<and> g = (call_request m url dat hs c,
            srv (map fst (concat (exchanges c))) (call_request m url dat hs c)) # rest
     \<and> (\<forall>r. fst (client_send srv m url dat hs c) = Inr r \<longrightarrow> (\<exists>q. last g = (q, Inr r)))"
proof -
  let ?req = "call_request m url dat hs c"
  let ?sent = "send_handling_redirects srv (follow_redirects c) (Suc max_redirects)
                 (map fst (concat (exchanges c))) [] ?req"
  obtain rest where g: "snd ?sent = (?req, srv (map fst (concat (exchanges c))) ?req) # rest"
    using shr_first by blast
  have s: "snd (client_send srv m url dat hs c) = c\<lparr>exchanges := exchanges c @ [snd ?sent]\<rparr>"
    by (simp add: client_send_def Let_def)
  have f: "fst (client_send srv m url dat hs c) = fst ?sent"
    by (simp add: client_send_def Let_def)
  have "\<exists>q. last (snd ?sent) = (q, Inr r)"
    if "fst (client_send srv m url dat hs c) = Inr r" for r
  proof -
    from that f have "?sent = (Inr r, snd ?sent)" by (metis prod.collapse)
    from shr_Inr [OF this] show ?thesis by blast
  qed
  with s g show ?thesis by blast
qed

lemma headers_encodable_Nil: "headers_encodable []"
  by (simp add: headers_encodable_def)

lemma client_request_group:
  "headers_encodable hs \<Longrightarrow>
   \<exists>g rest.
     snd (client_request srv m url dat hs c) = c\<lparr>exchanges := exchanges c @ [g]\<rparr>
     \<and> g = (call_request m url dat hs c,
            srv (map fst (concat (exchanges c))) (call_request m url dat hs c)) # rest
     \<and> (\<forall>r. fst (client_request srv m url dat hs c) = Inr r \<longrightarrow> (\<exists>q. last g = (q, Inr r)))"
  using client_send_group [of srv m url dat hs c] by (simp add: client_request_def)


text \<open>
  A call whose request the site answers with a response that is no redirect with a
  Location returns that response, after this one exchange.
\<close>

lemma client_request_direct:
  assumes "headers_encodable hs"
    and "srv (map fst (concat (exchanges c))) (call_request m url dat hs c) = Inr r"
    and "redirect_location r = None"
  shows "client_request srv m url dat hs c =
           (Inr r, c\<lparr>exchanges := exchanges c @ [[(call_request m url dat hs c, Inr r)]]\<rparr>)"
  using assms by (simp add: client_request_def client_send_def Let_def)

lemma calls_snoc:
  "exchanges (client s') = exchanges (client s) @ [x # rest] \<Longrightarrow> calls s' = calls s @ [fst x]"
  by (simp add: calls_def)

lemma final_status_last:
  "last g = (q, Inr r) \<Longrightarrow> g \<noteq> [] \<Longrightarrow> final_status g = Some (status_code r)"
  by (cases g rule: rev_cases) (auto simp: final_status_def)


section \<open>The stored base URL\<close>

lemma takeWhile_eq_replicate:
  "takeWhile (\<lambda>x. x = c) ys = replicate (length (takeWhile (\<lambda>x. x = c) ys)) c"
  by (induction ys) auto

lemma rstrip_decomp:
  "u = rstrip c u @ replicate (length (takeWhile (\<lambda>x. x = c) (rev u))) c"
proof -
  let ?P = "\<lambda>x. x = c"
  have "u = rev (takeWhile ?P (rev u) @ dropWhile ?P (rev u))"
    by (simp only: takeWhile_dropWhile_id rev_rev_ident)
  then have "u = rev (dropWhile ?P (rev u)) @ rev (takeWhile ?P (rev u))"
    by (simp only: rev_append)
  moreover have "rev (takeWhile ?P (rev u)) = replicate (length (takeWhile ?P (rev u))) c"
    by (metis takeWhile_eq_replicate rev_replicate)
  ultimately show ?thesis by (simp only: rstrip_def)
qed

lemma rstrip_last: "rstrip c u \<noteq> [] \<Longrightarrow> last (rstrip c u) \<noteq> c"
  unfolding rstrip_def
  using hd_dropWhile [of "\<lambda>x. x = c" "rev u"] by (simp add: last_rev)

lemma rstrip_idem: "rstrip c (rstrip c u) = rstrip c u"
  unfolding rstrip_def by simp

text \<open>
  C6. For every base URL, the session stores it with all its trailing slashes removed:
  the stored value is the \<^verbatim>\<open>rstrip\<close> of the argument, the argument is the stored value
  followed by slashes only, and the stored value does not end in a slash. Stripping is
  idempotent, on the string and through the constructor, and \<^verbatim>\<open>https://hh.ru/\<close> is stored
  as \<^verbatim>\<open>https://hh.ru\<close>.
\<close>

theorem base_url_stripped:
  "base_url (init u) = rstrip (CHR ''/'') u
   \<and> (\<exists>n. u = base_url (init u) @ replicate n (CHR ''/''))
   \<and> (base_url (init u) = [] \<or> last (base_url (init u)) \<noteq> CHR ''/'')
   \<and> rstrip (CHR ''/'') (base_url (init u)) = base_url (init u)
   \<and> base_url (init (base_url (init u))) = base_url (init u)
   \<and> base_url (init ''https://hh.ru/'') = ''https://hh.ru''"
proof -
  have 1: "base_url (init u) = rstrip (CHR ''/'') u" for u by (simp add: init_def)
  have 2: "\<exists>n. u = rstrip (CHR ''/'') u @ replicate n (CHR ''/'')"
    using rstrip_decomp [of u "CHR ''/''"] by blast
  have 3: "rstrip (CHR ''/'') u = [] \<or> last (rstrip (CHR ''/'') u) \<noteq> CHR ''/''"
    using rstrip_last by blast
  have 4: "rstrip (CHR ''/'') ''https://hh.ru/'' = ''https://hh.ru''"
    by (simp add: rstrip_def)
  from 2 3 4 show ?thesis by (simp only: 1 rstrip_idem simp_thms)
qed

theorem base_url_stripped_witness:
  "base_url (init ''https://hh.ru///'') = ''https://hh.ru''
   \<and> last (base_url (init ''https://hh.ru///'')) \<noteq> CHR ''/''"
  using base_url_stripped [of "''https://hh.ru///''"]
  by (simp add: rstrip_def)


section \<open>The session client\<close>


lemma get_xsrf_group:
  "\<exists>g rest.
    client (snd (get_xsrf srv s)) = (client s)\<lparr>exchanges := exchanges (client s) @ [g]\<rparr>
    \<and> g = (login_get_request s, srv (map fst (concat (exchanges (client s)))) (login_get_request s)) # rest"
proof -
  have "client (snd (get_xsrf srv s)) = snd (client_request srv GET (login_url s) [] [] (client s))"
    by (simp add: get_xsrf_def client_get_def Let_def split: prod.splits sum.splits)
  with client_request_group [OF headers_encodable_Nil, of srv GET "login_url s" "[]" "client s"]
  show ?thesis unfolding login_get_request_def by auto
qed

lemma get_xsrf_frame: "base_url (snd (get_xsrf srv s)) = base_url s"
  by (simp add: get_xsrf_def Let_def split: prod.splits sum.splits)

lemma get_xsrf_token:
  "get_xsrf srv s = (Inr t, s1) \<Longrightarrow> xsrf s1 = t"
  by (auto simp: get_xsrf_def Let_def split: prod.splits sum.splits)

lemma get_xsrf_calls: "calls (snd (get_xsrf srv s)) = calls s @ [login_get_request s]"
  using get_xsrf_group [of srv s] calls_snoc [of "snd (get_xsrf srv s)" s] by auto

lemma auth_unfold:
  "auth srv l p s =
     (if truthy (xsrf s) then login_post srv l p s
      else case get_xsrf srv s of
             (Inl e, s1) \<Rightarrow> (Inl e, s1)
           | (Inr t, s1) \<Rightarrow> login_post srv l p s1)"
  by (simp add: auth_def login_post_def split: prod.splits sum.splits)

lemma login_post_group:
  "\<exists>g rest.
    snd (login_post srv l p s) = s\<lparr>client := (client s)\<lparr>exchanges := exchanges (client s) @ [g]\<rparr>\<rparr>
    \<and> g = (login_post_request s l p, srv (map fst (concat (exchanges (client s)))) (login_post_request s l p)) # rest
    \<and> (\<forall>b. fst (login_post srv l p s) = Inr b \<longrightarrow> b = (final_status g = Some 200))"
proof -
  let ?cr = "client_request srv POST (login_url s) (login_data s l p) [] (client s)"
  from client_request_group
         [OF headers_encodable_Nil, of srv POST "login_url s" "login_data s l p" "client s"]
  obtain g rest where
    1: "snd ?cr = (client s)\<lparr>exchanges := exchanges (client s) @ [g]\<rparr>"
    and 2: "g = (call_request POST (login_url s) (login_data s l p) [] (client s),
            srv (map fst (concat (exchanges (client s))))
              (call_request POST (login_url s) (login_data s l p) [] (client s))) # rest"
    and 3: "\<forall>r. fst ?cr = Inr r \<longrightarrow> (\<exists>q. last g = (q, Inr r))"
    by blast
  have a: "snd (login_post srv l p s) = s\<lparr>client := snd ?cr\<rparr>"
    by (simp add: login_post_def client_post_def split: prod.splits sum.splits)
  have b: "b = (final_status g = Some 200)" if "fst (login_post srv l p s) = Inr b" for b
  proof -
    from that obtain r where r: "fst ?cr = Inr r" and br: "b = (status_code r = 200)"
      by (auto simp: login_post_def client_post_def split: prod.splits sum.splits)
    from 3 r obtain q where "last g = (q, Inr r)" by blast
    moreover from 2 have "g \<noteq> []" by simp
    ultimately have "final_status g = Some (status_code r)" by (rule final_status_last)
    with br show ?thesis by simp
  qed
  from a 1 2 b show ?thesis unfolding login_post_request_def by auto
qed



lemma login_post_request_frame:
  "base_url s1 = base_url s \<Longrightarrow> req_method (login_post_request s1 l p) = POST \<and> req_url (login_post_request s1 l p) = login_url s"
  by (simp add: login_post_request_def call_request_def login_url_def)

lemma login_post_calls: "calls (snd (login_post srv l p s)) = calls s @ [login_post_request s l p]"
  using login_post_group [of srv l p s] calls_snoc [of "snd (login_post srv l p s)" s] by auto

lemma login_post_result:
  assumes "fst (login_post srv l p s) = Inr b"
  shows "exchanges (client (snd (login_post srv l p s))) \<noteq> []
         \<and> b = (final_status (last (exchanges (client (snd (login_post srv l p s))))) = Some 200)"
  using login_post_group [of srv l p s] assms by auto

lemma login_post_frame:
  "xsrf (snd (login_post srv l p s)) = xsrf s \<and> base_url (snd (login_post srv l p s)) = base_url s"
  by (simp add: login_post_def split: prod.splits sum.splits)

lemma auth_cases:
  obtains (cached) "truthy (xsrf s)" "auth srv l p s = login_post srv l p s"
  | (fault) e s1 where "\<not> truthy (xsrf s)" "get_xsrf srv s = (Inl e, s1)" "auth srv l p s = (Inl e, s1)"
  | (fetched) t s1 where "\<not> truthy (xsrf s)" "get_xsrf srv s = (Inr t, s1)" "auth srv l p s = login_post srv l p s1"
proof (cases "truthy (xsrf s)")
  case True
  then show ?thesis using cached by (simp add: auth_unfold)
next
  case False
  obtain r s1 where g: "get_xsrf srv s = (r, s1)" by (cases "get_xsrf srv s")
  show ?thesis
  proof (cases r)
    case (Inl e)
    with False g show ?thesis using fault by (simp add: auth_unfold)
  next
    case (Inr t)
    with False g show ?thesis using fetched by (simp add: auth_unfold)
  qed
qed



lemma auth_calls:
  "calls (snd (auth srv login password s)) =
     calls s @
       (if truthy (xsrf s) then [login_post_request s login password]
        else (case get_xsrf srv s of
                (Inl e, s1) \<Rightarrow> [login_get_request s]
              | (Inr t, s1) \<Rightarrow> [login_get_request s, login_post_request s1 login password]))"
proof (cases rule: auth_cases [of s srv login password])
  case cached
  then show ?thesis by (simp add: login_post_calls)
next
  case (fault e s1)
  with get_xsrf_calls [of srv s] show ?thesis by simp
next
  case (fetched t s1)
  with get_xsrf_calls [of srv s] show ?thesis by (simp add: login_post_calls)
qed

lemma get_xsrf_ignores_token:
  "fst (get_xsrf srv (s\<lparr>xsrf := x\<rparr>)) = fst (get_xsrf srv s)
   \<and> client (snd (get_xsrf srv (s\<lparr>xsrf := x\<rparr>))) = client (snd (get_xsrf srv s))
   \<and> (\<forall>t. fst (get_xsrf srv s) = Inr t \<longrightarrow> snd (get_xsrf srv (s\<lparr>xsrf := x\<rparr>)) = snd (get_xsrf srv s))"
  by (simp add: get_xsrf_def login_url_def Let_def split: prod.splits sum.splits)

lemma auth_falsy_token:
  assumes "\<not> truthy x"
  shows "fst (auth srv l p (s\<lparr>xsrf := x\<rparr>)) = fst (auth srv l p (s\<lparr>xsrf := None\<rparr>))
       \<and> client (snd (auth srv l p (s\<lparr>xsrf := x\<rparr>))) = client (snd (auth srv l p (s\<lparr>xsrf := None\<rparr>)))"
proof -
  have n: "\<not> truthy None" by (simp add: truthy_def)
  obtain r s1 where g: "get_xsrf srv s = (r, s1)" by (cases "get_xsrf srv s")
  from get_xsrf_ignores_token [where srv=srv and s=s and x=x] g
  obtain s1x where gx: "get_xsrf srv (s\<lparr>xsrf := x\<rparr>) = (r, s1x)" and cx: "client s1x = client s1"
    and ex: "\<forall>t. r = Inr t \<longrightarrow> s1x = s1"
    by (cases "get_xsrf srv (s\<lparr>xsrf := x\<rparr>)") auto
  from get_xsrf_ignores_token [where srv=srv and s=s and x=None] g
  obtain s1n where gn: "get_xsrf srv (s\<lparr>xsrf := None\<rparr>) = (r, s1n)" and cn: "client s1n = client s1"
    and en: "\<forall>t. r = Inr t \<longrightarrow> s1n = s1"
    by (cases "get_xsrf srv (s\<lparr>xsrf := None\<rparr>)") auto
  show ?thesis
  proof (cases r)
    case (Inl e)
    with assms n gx gn cx cn show ?thesis by (simp add: auth_unfold)
  next
    case (Inr t)
    with ex en have "s1x = s1" "s1n = s1" by auto
    with Inr assms n gx gn show ?thesis by (simp add: auth_unfold)
  qed
qed


text \<open>
  What the client's record shows when \<^verbatim>\<open>auth\<close> has returned a value.
\<close>

lemma auth_result_record:
  assumes "fst (auth srv login password s) = Inr b"
  shows "exchanges (client (snd (auth srv login password s))) \<noteq> []
         \<and> req_method (last (calls (snd (auth srv login password s)))) = POST
         \<and> req_url (last (calls (snd (auth srv login password s)))) = login_url s
         \<and> b = (final_status (last (exchanges (client (snd (auth srv login password s)))))
                 = Some 200)"
proof (cases rule: auth_cases [of s srv login password])
  case cached
  with assms login_post_result [of srv login password s b]
    login_post_calls [of srv login password s]
    login_post_request_frame [of s s login password]
  show ?thesis by simp
next
  case (fault e s1)
  with assms show ?thesis by simp
next
  case (fetched t s1)
  have "base_url s1 = base_url s" using get_xsrf_frame [of srv s] fetched by simp
  with fetched assms login_post_result [of srv login password s1 b]
    login_post_calls [of srv login password s1]
    login_post_request_frame [of s1 s login password]
  show ?thesis by simp
qed

lemma login_post_outcome:
  "fst (login_post srv l p s) =
     map_sum id (\<lambda>r. status_code r = 200)
       (fst (client_post srv (login_url s) (login_data s l p) [] (client s)))"
  by (simp add: login_post_def split: prod.splits sum.splits)

lemma login_post_direct:
  assumes "srv (map fst (concat (exchanges (client s)))) (login_post_request s l p) = Inr r"
    and "redirect_location r = None"
  shows "fst (login_post srv l p s) = Inr (status_code r = 200)"
  using client_request_direct [OF headers_encodable_Nil, of srv "client s" POST "login_url s" "login_data s l p" r] assms
  by (simp add: login_post_def client_post_def login_post_request_def)

text \<open>
  C1, as the code has it. \<^verbatim>\<open>auth\<close> raises only what the token fetch or the login POST
  raises; whenever the client returns a response for the login POST, \<^verbatim>\<open>auth\<close> returns,
  and it returns true exactly when that response has status 200. The client follows
  redirects, so that response is the answer to the last request of the redirect chain.
  When the site answers the login POST itself with a response that is no redirect with a
  Location, any 4xx or 5xx among them, the result is whether that answer has status 200.
  And when \<^verbatim>\<open>auth\<close> returns a value, the last call in the client's record is the POST to
  the login URL, and the value is true exactly when the last exchange of that call has
  status 200.
\<close>

theorem auth_true_iff_final_status_200:
  "fst (auth srv login password s) =
     (case (if truthy (xsrf s) then (Inr (xsrf s), s) else get_xsrf srv s) of
        (Inl e, s1) \<Rightarrow> Inl e
      | (Inr t, s1) \<Rightarrow>
          map_sum id (\<lambda>r. status_code r = 200)
            (fst (client_post srv (login_url s1) (login_data s1 login password) []
                    (client s1))))
   \<and> (\<forall>t s1 r.
         (if truthy (xsrf s) then (Inr (xsrf s), s) else get_xsrf srv s) = (Inr t, s1)
         \<and> srv (map fst (concat (exchanges (client s1))))
               (login_post_request s1 login password) = Inr r
         \<and> redirect_location r = None
         \<longrightarrow> fst (auth srv login password s) = Inr (status_code r = 200))
   \<and> (\<forall>b. fst (auth srv login password s) = Inr b \<longrightarrow>
         exchanges (client (snd (auth srv login password s))) \<noteq> []
         \<and> req_method (last (calls (snd (auth srv login password s)))) = POST
         \<and> req_url (last (calls (snd (auth srv login password s)))) = login_url s
         \<and> b = (final_status (last (exchanges (client (snd (auth srv login password s)))))
                 = Some 200))"
proof (intro conjI allI impI)
  show "fst (auth srv login password s) =
     (case (if truthy (xsrf s) then (Inr (xsrf s), s) else get_xsrf srv s) of
        (Inl e, s1) \<Rightarrow> Inl e
      | (Inr t, s1) \<Rightarrow>
          map_sum id (\<lambda>r. status_code r = 200)
            (fst (client_post srv (login_url s1) (login_data s1 login password) []
                    (client s1))))"
    by (cases rule: auth_cases [of s srv login password])
       (simp_all add: login_post_outcome)
next
  fix t s1 r
  assume h: "(if truthy (xsrf s) then (Inr (xsrf s), s) else get_xsrf srv s) = (Inr t, s1)
         \<and> srv (map fst (concat (exchanges (client s1))))
               (login_post_request s1 login password) = Inr r
         \<and> redirect_location r = None"
  then have "auth srv login password s = login_post srv login password s1"
    by (auto simp: auth_unfold split: if_splits)
  with h show "fst (auth srv login password s) = Inr (status_code r = 200)"
    by (simp add: login_post_direct)
next
  fix b
  assume b: "fst (auth srv login password s) = Inr b"
  from auth_result_record [OF b]
  show "exchanges (client (snd (auth srv login password s))) \<noteq> []"
    and "req_method (last (calls (snd (auth srv login password s)))) = POST"
    and "req_url (last (calls (snd (auth srv login password s)))) = login_url s"
    and "b = (final_status (last (exchanges (client (snd (auth srv login password s)))))
                 = Some 200)"
    by simp_all
qed

theorem auth_true_iff_final_status_200_witness:
  "fst (auth (scripted_site (Some ''tok'') 503 (\<lambda>cv. 200)) ''user'' ''secret''
          (init ''https://hh.ru'')) = Inr False
   \<and> final_status (last (exchanges (client (snd
         (auth (scripted_site (Some ''tok'') 503 (\<lambda>cv. 200)) ''user'' ''secret''
            (init ''https://hh.ru''))))))
       \<noteq> Some 200
   \<and> req_method (last (calls (snd
         (auth (scripted_site (Some ''tok'') 503 (\<lambda>cv. 200)) ''user'' ''secret''
            (init ''https://hh.ru''))))) = POST"
proof -
  let ?site = "scripted_site (Some ''tok'') 503 (\<lambda>cv. 200)"
  let ?s = "init ''https://hh.ru''"
  let ?s1 = "snd (get_xsrf ?site ?s)"
  let ?r = "\<lparr>status_code = 503, location = None, cookies = Map.empty\<rparr>"
  have 1: "\<not> truthy (xsrf ?s)" by code_simp
  have "fst (get_xsrf ?site ?s) = Inr (Some ''tok'')" by code_simp
  then have 2: "get_xsrf ?site ?s = (Inr (Some ''tok''), ?s1)"
    by (metis prod.collapse)
  have 3: "?site (map fst (concat (exchanges (client ?s1))))
             (login_post_request ?s1 ''user'' ''secret'') = Inr ?r"
    by (simp add: scripted_site_def login_post_request_def call_request_def login_data_def)
  have 4: "redirect_location ?r = None" by (simp add: redirect_location_def)
  note t = auth_true_iff_final_status_200 [of ?site "''user''" "''secret''" ?s]
  from t 1 2 3 4 have a: "fst (auth ?site ''user'' ''secret'' ?s) = Inr (status_code ?r = 200)"
    by (metis (no_types, lifting))
  then have b: "fst (auth ?site ''user'' ''secret'' ?s) = Inr False" by simp
  from t [THEN conjunct2, THEN conjunct2, THEN spec, of False] b show ?thesis by blast
qed

text \<open>
  C1, as stated, fails: the login endpoint of \<open>redirecting_site\<close> answers the POST with
  302 and a Location; the client follows it, the front page answers 200, and \<^verbatim>\<open>auth\<close>
  returns true.
\<close>

theorem auth_redirect_counterexample:
  "fst (auth redirecting_site ''user'' ''secret'' (init ''https://hh.ru'')) = Inr True
   \<and> map wire_summary
         (exchanges (client (snd
            (auth redirecting_site ''user'' ''secret'' (init ''https://hh.ru'')))))
       = [[(GET, ''https://hh.ru/account/login?backurl=%2F'', Some 200)],
          [(POST, ''https://hh.ru/account/login?backurl=%2F'', Some 302),
           (GET, ''https://hh.ru/'', Some 200)]]"
  by code_simp

text \<open>
  C3. The calls \<^verbatim>\<open>auth\<close> hands to its client are: the login POST alone when a (non-empty)
  token is cached; otherwise one GET of the login page, the implicit token fetch, followed
  by the login POST built from the session the fetch left, or by nothing when the fetch
  ended in a fault.
\<close>

theorem auth_fetches_token_once:
  "calls (snd (auth srv login password s)) =
     calls s @
       (if truthy (xsrf s) then [login_post_request s login password]
        else (case get_xsrf srv s of
                (Inl e, s1) \<Rightarrow> [login_get_request s]
              | (Inr t, s1) \<Rightarrow> [login_get_request s, login_post_request s1 login password]))"
  by (rule auth_calls)

theorem auth_fetches_token_once_witness:
  "calls (snd (auth (scripted_site (Some ''tok'') 200 (\<lambda>cv. 200)) ''user'' ''secret''
                 (init ''https://hh.ru'')))
     = [login_get_request (init ''https://hh.ru''),
        login_post_request
          (snd (get_xsrf (scripted_site (Some ''tok'') 200 (\<lambda>cv. 200)) (init ''https://hh.ru'')))
          ''user'' ''secret'']
   \<and> calls (snd (auth (scripted_site (Some ''tok'') 200 (\<lambda>cv. 200)) ''user'' ''secret''
                   ((init ''https://hh.ru'')\<lparr>xsrf := Some ''tok''\<rparr>)))
     = [login_post_request ((init ''https://hh.ru'')\<lparr>xsrf := Some ''tok''\<rparr>)
          ''user'' ''secret'']"
proof -
  let ?site = "scripted_site (Some ''tok'') 200 (\<lambda>cv. 200)"
  let ?s = "init ''https://hh.ru''"
  have 1: "\<not> truthy (xsrf ?s)" by code_simp
  have 2: "calls ?s = []" by code_simp
  have "fst (get_xsrf ?site ?s) = Inr (Some ''tok'')" by code_simp
  then obtain s1 where 3: "get_xsrf ?site ?s = (Inr (Some ''tok''), s1)"
    by (cases "get_xsrf ?site ?s") auto
  have 4: "truthy (xsrf (?s\<lparr>xsrf := Some ''tok''\<rparr>))" by code_simp
  have 5: "calls (?s\<lparr>xsrf := Some ''tok''\<rparr>) = []" by code_simp
  from auth_fetches_token_once [of ?site "''user''" "''secret''" ?s] 1 2 3
  have a: "calls (snd (auth ?site ''user'' ''secret'' ?s))
             = [login_get_request ?s, login_post_request (snd (get_xsrf ?site ?s)) ''user'' ''secret'']"
    by simp
  from auth_fetches_token_once [of ?site "''user''" "''secret''" "?s\<lparr>xsrf := Some ''tok''\<rparr>"] 4 5
  have b: "calls (snd (auth ?site ''user'' ''secret'' (?s\<lparr>xsrf := Some ''tok''\<rparr>)))
             = [login_post_request (?s\<lparr>xsrf := Some ''tok''\<rparr>) ''user'' ''secret'']"
    by simp
  from a b show ?thesis by (rule conjI)
qed

text \<open>
  C7. In every session with a (non-empty) token cached, \<^verbatim>\<open>auth\<close> leaves the cached token
  and the base URL as they were, whatever the site answers, a response that sets a new
  \<^verbatim>\<open>_xsrf\<close> cookie included.
\<close>

theorem auth_keeps_cached_token:
  assumes "truthy (xsrf s)"
  shows "xsrf (snd (auth srv login password s)) = xsrf s
         \<and> base_url (snd (auth srv login password s)) = base_url s"
  using assms by (simp add: auth_unfold login_post_frame)

theorem auth_keeps_cached_token_witness:
  "truthy (xsrf ((init ''https://hh.ru'')\<lparr>xsrf := Some ''tok''\<rparr>))
   \<and> xsrf (snd (auth rotating_site ''user'' ''secret''
                  ((init ''https://hh.ru'')\<lparr>xsrf := Some ''tok''\<rparr>))) = Some ''tok''
   \<and> base_url (snd (auth rotating_site ''user'' ''secret''
                      ((init ''https://hh.ru'')\<lparr>xsrf := Some ''tok''\<rparr>))) = ''https://hh.ru''"
proof -
  have h: "truthy (xsrf ((init ''https://hh.ru'')\<lparr>xsrf := Some ''tok''\<rparr>))" by code_simp
  have b: "base_url ((init ''https://hh.ru'')\<lparr>xsrf := Some ''tok''\<rparr>) = ''https://hh.ru''"
    by code_simp
  from auth_keeps_cached_token [OF h, of rotating_site "''user''" "''secret''"] h b
  show ?thesis by simp
qed

text \<open>
  C9. A cached token that is the empty string is treated as no token. \<^verbatim>\<open>auth\<close> gives the
  same result and the same network activity from a session with the empty token as from
  the same session with none, and its first call is the GET of the login page;
  \<^verbatim>\<open>update_cv\<close> returns false and leaves the session, its record of exchanges included,
  as it was, in both cases.
\<close>

theorem empty_token_is_no_token:
  "fst (auth srv login password (s\<lparr>xsrf := Some []\<rparr>))
     = fst (auth srv login password (s\<lparr>xsrf := None\<rparr>))
   \<and> client (snd (auth srv login password (s\<lparr>xsrf := Some []\<rparr>)))
     = client (snd (auth srv login password (s\<lparr>xsrf := None\<rparr>)))
   \<and> take (Suc (length (calls s))) (calls (snd (auth srv login password (s\<lparr>xsrf := Some []\<rparr>))))
     = calls s @ [login_get_request s]
   \<and> update_cv srv cv_id (s\<lparr>xsrf := Some []\<rparr>) = (Inr False, s\<lparr>xsrf := Some []\<rparr>)
   \<and> update_cv srv cv_id (s\<lparr>xsrf := None\<rparr>) = (Inr False, s\<lparr>xsrf := None\<rparr>)"
proof -
  have f: "\<not> truthy (Some [])" by (simp add: truthy_def)
  have c: "calls (s\<lparr>xsrf := Some []\<rparr>) = calls s"
    and g: "login_get_request (s\<lparr>xsrf := Some []\<rparr>) = login_get_request s"
    by (simp_all add: calls_def login_get_request_def login_url_def)
  have "take (Suc (length (calls s))) (calls (snd (auth srv login password (s\<lparr>xsrf := Some []\<rparr>))))
     = calls s @ [login_get_request s]"
    using f by (simp add: auth_calls [of srv login password "s\<lparr>xsrf := Some []\<rparr>"] c g
                  split: prod.splits sum.splits)
  with auth_falsy_token [OF f, where srv=srv and l=login and p=password and s=s] show ?thesis
    by (simp add: update_cv_def)
qed

theorem empty_token_is_no_token_witness:
  "fst (auth (scripted_site (Some ''tok'') 200 (\<lambda>cv. 200)) ''user'' ''secret''
          ((init ''https://hh.ru'')\<lparr>xsrf := Some []\<rparr>))
     = fst (auth (scripted_site (Some ''tok'') 200 (\<lambda>cv. 200)) ''user'' ''secret''
              ((init ''https://hh.ru'')\<lparr>xsrf := None\<rparr>))
   \<and> update_cv (scripted_site (Some ''tok'') 200 (\<lambda>cv. 200)) ''cv1''
       ((init ''https://hh.ru'')\<lparr>xsrf := Some []\<rparr>)
     = (Inr False, (init ''https://hh.ru'')\<lparr>xsrf := Some []\<rparr>)"
  using empty_token_is_no_token
          [of "scripted_site (Some ''tok'') 200 (\<lambda>cv. 200)" "''user''" "''secret''"
              "init ''https://hh.ru''" "''cv1''"]
  by simp

text \<open>
  C10. When no token is cached and the implicit fetch finds no \<^verbatim>\<open>_xsrf\<close> cookie,
  \<^verbatim>\<open>auth\<close> goes on: after the GET of the login page it hands the client one POST to the
  login URL whose form has the empty string in the field \<^verbatim>\<open>_xsrf\<close>, and its result is
  that call's outcome, true exactly when the response the call returned has status 200.
\<close>

theorem auth_posts_without_token:
  assumes "\<not> truthy (xsrf s)" and "fst (get_xsrf srv s) = Inr None"
  shows "fst (auth srv login password s) =
           map_sum id (\<lambda>r. status_code r = 200)
             (fst (client_post srv (login_url s)
                     [(''username'', login), (''password'', password),
                      (''backUrl'', base_url s @ ''/''), (''_xsrf'', []),
                      (''action'', action_label)]
                     [] (client (snd (get_xsrf srv s)))))
         \<and> (\<exists>q. calls (snd (auth srv login password s)) = calls s @ [login_get_request s, q]
                \<and> req_method q = POST \<and> req_url q = login_url s
                \<and> map_of (req_data q) ''_xsrf'' = Some [])
         \<and> (\<forall>b. fst (auth srv login password s) = Inr b \<longrightarrow>
                b = (final_status (last (exchanges (client (snd (auth srv login password s)))))
                     = Some 200))"
proof -
  obtain s1 where g: "get_xsrf srv s = (Inr None, s1)"
    using assms(2) by (cases "get_xsrf srv s") auto
  then have x: "xsrf s1 = None" by (rule get_xsrf_token)
  have b: "base_url s1 = base_url s" using get_xsrf_frame [of srv s] g by simp
  have a: "auth srv login password s = login_post srv login password s1"
    using assms(1) g by (simp add: auth_unfold)
  have d: "login_data s1 login password =
             [(''username'', login), (''password'', password),
              (''backUrl'', base_url s @ ''/''), (''_xsrf'', []), (''action'', action_label)]"
    by (simp add: login_data_def x b or_empty_def)
  have u: "login_url s1 = login_url s" by (simp add: login_url_def b)
  have 1: "fst (login_post srv login password s1) =
           map_sum id (\<lambda>r. status_code r = 200)
             (fst (client_post srv (login_url s1) (login_data s1 login password) [] (client s1)))"
    by (simp add: login_post_def split: prod.splits sum.splits)
  have 2: "calls (snd (auth srv login password s))
             = calls s @ [login_get_request s, login_post_request s1 login password]"
    using assms(1) g by (simp add: auth_calls)
  have 3: "req_method (login_post_request s1 login password) = POST"
          "req_url (login_post_request s1 login password) = login_url s"
          "map_of (req_data (login_post_request s1 login password)) ''_xsrf'' = Some []"
    by (simp_all add: login_post_request_def call_request_def d u)
  from 1 2 3 a d u g login_post_result [of srv login password s1] show ?thesis
    by simp
qed

theorem auth_posts_without_token_witness:
  "\<not> truthy (xsrf (init ''https://hh.ru''))
   \<and> fst (get_xsrf (scripted_site None 200 (\<lambda>cv. 200)) (init ''https://hh.ru'')) = Inr None
   \<and> fst (auth (scripted_site None 200 (\<lambda>cv. 200)) ''user'' ''secret'' (init ''https://hh.ru''))
       = map_sum id (\<lambda>r. status_code r = 200)
           (fst (client_post (scripted_site None 200 (\<lambda>cv. 200))
                   (login_url (init ''https://hh.ru''))
                   [(''username'', ''user''), (''password'', ''secret''),
                    (''backUrl'', base_url (init ''https://hh.ru'') @ ''/''), (''_xsrf'', []),
                    (''action'', action_label)]
                   []
                   (client (snd (get_xsrf (scripted_site None 200 (\<lambda>cv. 200))
                                   (init ''https://hh.ru''))))))
   \<and> fst (auth (scripted_site None 200 (\<lambda>cv. 200)) ''user'' ''secret'' (init ''https://hh.ru''))
       = Inr True
   \<and> final_status (last (exchanges (client (snd
         (auth (scripted_site None 200 (\<lambda>cv. 200)) ''user'' ''secret''
            (init ''https://hh.ru''))))))
       = Some 200"
proof -
  let ?site = "scripted_site None 200 (\<lambda>cv. 200)"
  have 1: "\<not> truthy (xsrf (init ''https://hh.ru''))" by code_simp
  have 2: "fst (get_xsrf ?site (init ''https://hh.ru'')) = Inr None" by code_simp
  have 3: "fst (auth ?site ''user'' ''secret'' (init ''https://hh.ru'')) = Inr True"
    by code_simp
  from auth_posts_without_token [OF 1 2, of "''user''" "''secret''"] 1 2 3
  show ?thesis by blast
qed



text \<open>
  C2. In every session with no token cached, \<^verbatim>\<open>update_cv\<close> returns false and leaves the
  session as it was; in particular the client's record of exchanges is unchanged, so no
  request was issued.
\<close>

theorem update_cv_without_token:
  "xsrf s = None \<Longrightarrow>
     update_cv srv cv_id s = (Inr False, s)
     \<and> exchanges (client (snd (update_cv srv cv_id s))) = exchanges (client s)"
  by (simp add: update_cv_def)

theorem update_cv_without_token_witness:
  "xsrf (init ''https://hh.ru'') = None
   \<and> update_cv unreachable_site ''cv1'' (init ''https://hh.ru'')
       = (Inr False, init ''https://hh.ru'')
   \<and> exchanges (client (snd (update_cv unreachable_site ''cv1'' (init ''https://hh.ru''))))
       = []"
proof -
  have h: "xsrf (init ''https://hh.ru'') = None" by (simp add: init_def)
  from update_cv_without_token [OF h, of unreachable_site "''cv1''"] h
  show ?thesis by (simp add: init_def)
qed


section \<open>The command sequencer\<close>




lemma item_outcomes_append: "item_outcomes (a @ b) = item_outcomes a @ item_outcomes b"
  by (induction a rule: item_outcomes.induct) simp_all







lemma update_auth_failed:
  assumes "g_base_url g = Some url" and "fst (run_auth srv g url) = Inr False"
  shows "update srv g cv_ids =
           \<lparr>outcome = Inl (Exit 1), updater = Some (snd (run_auth srv g url)),
            printed = preamble g cv_ids @ [Error_auth, Error_unexpected []]
                       @ (if g_verbose g then [Traceback] else [])\<rparr>"
proof -
  from assms(2) obtain s1 where a: "auth srv (form_str (g_login g)) (form_str (g_password g)) (init url) = (Inr False, s1)"
    by (cases "run_auth srv g url") (auto simp: run_auth_def)
  with assms(1) show ?thesis
    by (simp add: update_def update_body_def run_auth_def preamble_def exn_str_def Let_def)
qed

lemma update_auth_ok:
  assumes "g_base_url g = Some url" and "fst (run_auth srv g url) = Inr True"
    and "update_loop srv (g_verbose g) cv_ids 0 (snd (run_auth srv g url))
           (preamble g cv_ids @ [Success_auth]) = (res, s2, out2)"
  shows "update srv g cv_ids =
          (case res of
             Inl e \<Rightarrow>
               \<lparr>outcome = Inl (Exit 1), updater = Some s2,
                printed = out2 @ [Error_unexpected (exn_str e)]
                           @ (if g_verbose g then [Traceback] else [])\<rparr>
           | Inr n \<Rightarrow>
               if n < length cv_ids
               then \<lparr>outcome = Inl (Exit 1), updater = Some s2,
                     printed = out2 @ [Success_summary n (length cv_ids), Error_unexpected []]
                                @ (if g_verbose g then [Traceback] else [])\<rparr>
               else \<lparr>outcome = Inr (), updater = Some s2,
                     printed = out2 @ [Success_summary n (length cv_ids)]\<rparr>)"
proof -
  from assms(2) obtain s1 where a: "auth srv (form_str (g_login g)) (form_str (g_password g)) (init url) = (Inr True, s1)"
    by (cases "run_auth srv g url") (auto simp: run_auth_def)
  then have s1: "snd (run_auth srv g url) = s1" by (simp add: run_auth_def)
  from assms(1,3) a show ?thesis unfolding s1
    by (cases res; cases "g_verbose g")
       (simp_all add: update_def update_body_def preamble_def exn_str_def Let_def)
qed

text \<open>
  No fault escapes \<^verbatim>\<open>update\<close>: it ends normally or with \<^verbatim>\<open>typer.Exit(code = 1)\<close>.
  In particular a transport fault in one of the touch calls ends the run with status 1.
\<close>

lemma update_outcome:
  "outcome (update srv g cv_ids) = Inr () \<or> outcome (update srv g cv_ids) = Inl (Exit 1)"
  by (simp add: update_def Let_def split: option.splits prod.splits sum.splits)

lemma update_fault_in_loop:
  assumes "g_base_url g = Some url" and "fst (run_auth srv g url) = Inr True"
    and "fst (update_loop srv (g_verbose g) cv_ids 0 (snd (run_auth srv g url))
           (preamble g cv_ids @ [Success_auth])) = Inl e"
  shows "exit_status (update srv g cv_ids) = 1"
proof -
  obtain s2 out2 where "update_loop srv (g_verbose g) cv_ids 0 (snd (run_auth srv g url))
           (preamble g cv_ids @ [Success_auth]) = (Inl e, s2, out2)"
    using assms(3)
    by (cases "update_loop srv (g_verbose g) cv_ids 0 (snd (run_auth srv g url))
           (preamble g cv_ids @ [Success_auth])") auto
  from update_auth_ok [OF assms(1,2) this] show ?thesis by (simp add: exit_status_def)
qed



text \<open>
  C4. When \<^verbatim>\<open>auth\<close> returns false, \<^verbatim>\<open>update\<close> ends with exit status 1, having printed
  the authentication error and no per-resume line, and the session it leaves is the one
  \<^verbatim>\<open>auth\<close> left: nothing was done with it afterwards, so \<^verbatim>\<open>update_cv\<close> was not called
  and no request followed the login.
\<close>

theorem update_stops_when_auth_fails:
  assumes "g_base_url g = Some url" and "fst (run_auth srv g url) = Inr False"
  shows "exit_status (update srv g cv_ids) = 1
       \<and> outcome (update srv g cv_ids) = Inl (Exit 1)
       \<and> updater (update srv g cv_ids) = Some (snd (run_auth srv g url))
       \<and> item_outcomes (printed (update srv g cv_ids)) = []
       \<and> Error_auth \<in> set (printed (update srv g cv_ids))"
  by (simp add: update_auth_failed [OF assms] exit_status_def preamble_def item_outcomes_append)

theorem update_stops_when_auth_fails_witness:
  "g_base_url \<lparr>g_verbose = False, g_base_url = Some ''https://hh.ru'',
               g_login = Some ''user'', g_password = Some ''secret''\<rparr> = Some ''https://hh.ru''
   \<and> fst (run_auth (scripted_site (Some ''tok'') 302 (\<lambda>cv. 200))
            \<lparr>g_verbose = False, g_base_url = Some ''https://hh.ru'',
             g_login = Some ''user'', g_password = Some ''secret''\<rparr> ''https://hh.ru'')
       = Inr False
   \<and> exit_status (update (scripted_site (Some ''tok'') 302 (\<lambda>cv. 200))
                     \<lparr>g_verbose = False, g_base_url = Some ''https://hh.ru'',
                      g_login = Some ''user'', g_password = Some ''secret''\<rparr> [''a'', ''b''])
       = 1
   \<and> item_outcomes (printed (update (scripted_site (Some ''tok'') 302 (\<lambda>cv. 200))
                     \<lparr>g_verbose = False, g_base_url = Some ''https://hh.ru'',
                      g_login = Some ''user'', g_password = Some ''secret''\<rparr> [''a'', ''b'']))
       = []"
proof -
  let ?site = "scripted_site (Some ''tok'') 302 (\<lambda>cv. 200)"
  let ?g = "\<lparr>g_verbose = False, g_base_url = Some ''https://hh.ru'',
             g_login = Some ''user'', g_password = Some ''secret''\<rparr>"
  have 1: "g_base_url ?g = Some ''https://hh.ru''" by simp
  have 2: "fst (run_auth ?site ?g ''https://hh.ru'') = Inr False" by code_simp
  from update_stops_when_auth_fails [OF 1 2, of "[''a'', ''b'']"] 1 2
  show ?thesis by blast
qed









text \<open>
  C8, as the code has it. \<^verbatim>\<open>check\<close> ends with status 0 exactly when \<^verbatim>\<open>get_xsrf\<close>
  returned a non-empty token, and then it prints the first ten characters of the token,
  which is the whole token when it has no more than ten. It always ends normally or with
  \<^verbatim>\<open>typer.Exit(code = 1)\<close>; when the response sets no \<^verbatim>\<open>_xsrf\<close> cookie it ends with status
  1, having printed the error about the missing token.
\<close>

theorem check_reports_token_prefix:
  "(exit_status (check srv url) = 0 \<longleftrightarrow>
      (\<exists>t. fst (get_xsrf srv (init url)) = Inr (Some t) \<and> t \<noteq> []))
   \<and> (outcome (check srv url) = Inr () \<or> outcome (check srv url) = Inl (Exit 1))
   \<and> (\<forall>t. fst (get_xsrf srv (init url)) = Inr (Some t) \<and> t \<noteq> [] \<longrightarrow>
         printed (check srv url) = [Info_check url, Success_check (take 10 t)])
   \<and> (fst (get_xsrf srv (init url)) = Inr None \<longrightarrow>
         exit_status (check srv url) = 1
         \<and> printed (check srv url) = [Info_check url, Error_no_xsrf, Error_check []])"
proof -
  obtain r s where g: "get_xsrf srv (init url) = (r, s)" by (cases "get_xsrf srv (init url)")
  show ?thesis
  proof (cases r)
    case (Inl e)
    with g show ?thesis by (simp add: check_def exit_status_def Let_def)
  next
    case (Inr x)
    with g show ?thesis
      by (cases x)
         (simp_all add: check_def exit_status_def truthy_def or_empty_def exn_str_def Let_def)
  qed
qed

theorem check_reports_token_prefix_witness:
  "fst (get_xsrf (scripted_site (Some ''0123456789abcdef'') 200 (\<lambda>cv. 200))
          (init ''https://hh.ru'')) = Inr (Some ''0123456789abcdef'')
   \<and> exit_status (check (scripted_site (Some ''0123456789abcdef'') 200 (\<lambda>cv. 200))
                     ''https://hh.ru'') = 0
   \<and> printed (check (scripted_site (Some ''0123456789abcdef'') 200 (\<lambda>cv. 200))
                 ''https://hh.ru'')
       = [Info_check ''https://hh.ru'', Success_check ''0123456789'']
   \<and> fst (get_xsrf (scripted_site None 200 (\<lambda>cv. 200)) (init ''https://hh.ru'')) = Inr None
   \<and> exit_status (check (scripted_site None 200 (\<lambda>cv. 200)) ''https://hh.ru'') = 1"
proof -
  let ?site1 = "scripted_site (Some ''0123456789abcdef'') 200 (\<lambda>cv. 200)"
  let ?site0 = "scripted_site None 200 (\<lambda>cv. 200)"
  have 1: "fst (get_xsrf ?site1 (init ''https://hh.ru'')) = Inr (Some ''0123456789abcdef'')"
    by code_simp
  have 2: "fst (get_xsrf ?site0 (init ''https://hh.ru'')) = Inr None" by code_simp
  from check_reports_token_prefix [of ?site1 "''https://hh.ru''"] 1
  have a: "exit_status (check ?site1 ''https://hh.ru'') = 0
           \<and> printed (check ?site1 ''https://hh.ru'')
               = [Info_check ''https://hh.ru'', Success_check ''0123456789'']"
    by simp
  from check_reports_token_prefix [of ?site0 "''https://hh.ru''"] 2
  have b: "exit_status (check ?site0 ''https://hh.ru'') = 1" by simp
  from 1 2 a b show ?thesis by blast
qed

text \<open>
  C8, as stated, fails twice. A token of three characters is printed whole. And a
  response that sets the cookie \<^verbatim>\<open>_xsrf\<close> to the empty string gives \<^verbatim>\<open>get_xsrf\<close> a token,
  the empty one, yet \<^verbatim>\<open>check\<close> ends with status 1.
\<close>

theorem check_shows_whole_token_counterexample:
  "fst (get_xsrf short_token_site (init ''https://hh.ru'')) = Inr (Some ''abc'')
   \<and> printed (check short_token_site ''https://hh.ru'')
       = [Info_check ''https://hh.ru'', Success_check ''abc'']
   \<and> fst (get_xsrf empty_token_site (init ''https://hh.ru'')) = Inr (Some [])
   \<and> exit_status (check empty_token_site ''https://hh.ru'') = 1"
  by code_simp

end
